theory Spec2Isabelle
  imports Complex_Main "HOL-Library.AList"
begin

section \<open>JavaScript numbers\<close>

text \<open>
  The aggregations of \<^verbatim>\<open>src/components/DashboardVisualization.tsx\<close> compute with
  JavaScript numbers, whose division by zero does not raise: \<^verbatim>\<open>0 / 0\<close> is NaN and
  \<^verbatim>\<open>1 / 0\<close> is Infinity. A number is modelled as a finite value or one of the three
  special values. Finite values are exact reals: the rounding of IEEE doubles and the
  sign of zero are left out of the model (every divisor in the component is a length or
  the constant 86400000, so a negative zero never divides).
\<close>

datatype jsnum = Fin real | PosInf | NegInf | NaN

fun js_neg :: "jsnum \<Rightarrow> jsnum" where
  "js_neg (Fin a) = Fin (- a)"
| "js_neg PosInf = NegInf"
| "js_neg NegInf = PosInf"
| "js_neg NaN = NaN"

fun js_add :: "jsnum \<Rightarrow> jsnum \<Rightarrow> jsnum" where
  "js_add (Fin a) (Fin b) = Fin (a + b)"
| "js_add NaN y = NaN"
| "js_add x NaN = NaN"
| "js_add PosInf NegInf = NaN"
| "js_add NegInf PosInf = NaN"
| "js_add PosInf y = PosInf"
| "js_add x PosInf = PosInf"
| "js_add NegInf y = NegInf"
| "js_add x NegInf = NegInf"

definition js_sub :: "jsnum \<Rightarrow> jsnum \<Rightarrow> jsnum" where
  "js_sub x y = js_add x (js_neg y)"

fun js_mul :: "jsnum \<Rightarrow> jsnum \<Rightarrow> jsnum" where
  "js_mul (Fin a) (Fin b) = Fin (a * b)"
| "js_mul NaN y = NaN"
| "js_mul x NaN = NaN"
| "js_mul PosInf (Fin b) = (if b = 0 then NaN else if 0 < b then PosInf else NegInf)"
| "js_mul NegInf (Fin b) = (if b = 0 then NaN else if 0 < b then NegInf else PosInf)"
| "js_mul (Fin a) PosInf = (if a = 0 then NaN else if 0 < a then PosInf else NegInf)"
| "js_mul (Fin a) NegInf = (if a = 0 then NaN else if 0 < a then NegInf else PosInf)"
| "js_mul PosInf PosInf = PosInf"
| "js_mul NegInf NegInf = PosInf"
| "js_mul PosInf NegInf = NegInf"
| "js_mul NegInf PosInf = NegInf"

fun js_div :: "jsnum \<Rightarrow> jsnum \<Rightarrow> jsnum" where
  "js_div (Fin a) (Fin b) =
     (if b = 0 then (if a = 0 then NaN else if 0 < a then PosInf else NegInf)
      else Fin (a / b))"
| "js_div NaN y = NaN"
| "js_div x NaN = NaN"
| "js_div (Fin a) PosInf = Fin 0"
| "js_div (Fin a) NegInf = Fin 0"
| "js_div PosInf (Fin b) = (if 0 \<le> b then PosInf else NegInf)"
| "js_div NegInf (Fin b) = (if 0 \<le> b then NegInf else PosInf)"
| "js_div PosInf y = NaN"
| "js_div NegInf y = NaN"

text \<open>The comparisons \<^verbatim>\<open><=\<close> and \<^verbatim>\<open><\<close>: false as soon as one side is NaN.\<close>

fun js_le :: "jsnum \<Rightarrow> jsnum \<Rightarrow> bool" where
  "js_le (Fin a) (Fin b) = (a \<le> b)"
| "js_le NaN y = False"
| "js_le x NaN = False"
| "js_le NegInf y = True"
| "js_le x PosInf = True"
| "js_le PosInf y = False"
| "js_le x NegInf = False"

fun js_lt :: "jsnum \<Rightarrow> jsnum \<Rightarrow> bool" where
  "js_lt (Fin a) (Fin b) = (a < b)"
| "js_lt NaN y = False"
| "js_lt x NaN = False"
| "js_lt PosInf y = False"
| "js_lt x NegInf = False"
| "js_lt NegInf y = True"
| "js_lt x PosInf = True"

text \<open>Truthiness, as \<^verbatim>\<open>||\<close> and \<^verbatim>\<open>&&\<close> test it: a number is falsy when it is 0 or NaN, a
  string when it is empty; \<^verbatim>\<open>null\<close> and \<^verbatim>\<open>undefined\<close> (here \<open>None\<close>) are falsy.\<close>

definition truthy_num :: "jsnum \<Rightarrow> bool" where
  "truthy_num x = (x \<noteq> NaN \<and> x \<noteq> Fin 0)"

definition truthy_str :: "string option \<Rightarrow> bool" where
  "truthy_str s = (case s of None \<Rightarrow> False | Some t \<Rightarrow> t \<noteq> [])"

text \<open>\<^verbatim>\<open>[...new Set(xs)]\<close>: the distinct elements, each at its first occurrence.\<close>

definition spreadSet :: "'a list \<Rightarrow> 'a list" where
  "spreadSet xs = rev (remdups (rev xs))"

section \<open>Records and summaries\<close>

text \<open>
  \<^verbatim>\<open>EdrDataType\<close> and \<^verbatim>\<open>VulnDataType\<close> (lines 66-87). The parser is run with
  \<^verbatim>\<open>dynamicTyping\<close>, which yields \<^verbatim>\<open>null\<close> for an empty cell, so the fields whose
  presence the code tests are options. The fields of the vulnerability record that
  share a name with an alert field carry the prefix \<open>v\<close>.

  \<^verbatim>\<open>RecommendedTimeframe\<close> is declared a number, but the rows reach the aggregator
  unchecked from the parser (lines 138-149), which reads a numeric cell as a number,
  \<^verbatim>\<open>true\<close> and \<^verbatim>\<open>false\<close> as booleans, and leaves any other text a string. A string
  cell \<open>StrCell s n\<close> is the text \<open>s\<close> with the number \<open>n\<close> that a comparison with a
  number converts it to (NaN for a text that is not numeric).
\<close>

datatype cell = NumCell jsnum | BoolCell bool | StrCell string jsnum

definition truthy_cell :: "cell \<Rightarrow> bool" where
  "truthy_cell c =
     (case c of NumCell x \<Rightarrow> truthy_num x | BoolCell b \<Rightarrow> b | StrCell s n \<Rightarrow> s \<noteq> [])"

definition cellNumber :: "cell \<Rightarrow> jsnum" where
  "cellNumber c =
     (case c of NumCell x \<Rightarrow> x | BoolCell b \<Rightarrow> Fin (if b then 1 else 0) | StrCell s n \<Rightarrow> n)"

record EdrDataType =
  Severity :: string
  IOCType :: "string option"
  AlertType :: string
  Status :: string
  Hostname :: string

record VulnDataType =
  vSeverity :: string
  vStatus :: string
  DetectionSource :: string
  DetectionDate :: "string option"
  PatchAppliedDate :: "string option"
  IsCritical :: string
  IsPatchable :: string
  AssetID :: string
  RecommendedTimeframe :: "cell option"

text \<open>
  What a property of a count object holds: a number, or a string. A string arises when
  a label names a member of \<^verbatim>\<open>Object.prototype\<close>: \<open>Txt k n\<close> is the text that the
  member named \<open>k\<close> converts to (the source text of a function, or
  \<^verbatim>\<open>[object Object]\<close>), followed by \<open>n\<close> characters \<^verbatim>\<open>1\<close>. Such a string is not
  numeric, so a division converts it to NaN.
\<close>

datatype jsprop = Num nat | Txt string nat

definition propNumber :: "jsprop \<Rightarrow> jsnum" where
  "propNumber v = (case v of Num c \<Rightarrow> Fin (real c) | Txt k n \<Rightarrow> NaN)"

text \<open>One entry of a breakdown: \<^verbatim>\<open>{ name, value, percentage }\<close>.\<close>

record ChartEntry =
  name :: string
  val :: jsprop
  percentage :: jsnum

record EdrKpis =
  totalAlerts :: nat
  criticalRate :: jsnum
  iocDetectionRate :: jsnum
  severityData :: "ChartEntry list"
  alertTypeData :: "ChartEntry list"
  suspiciousConnectionRate :: jsnum
  uniqueEndpoints :: nat
  statusData :: "ChartEntry list"

record VulnKpis =
  totalVulnerabilities :: nat
  vSeverityData :: "ChartEntry list"
  vStatusData :: "ChartEntry list"
  sourceData :: "ChartEntry list"
  remediationRate :: jsnum
  avgRemediationTime :: jsnum
  criticalVulnerabilityRate :: jsnum
  patchesInTimeRate :: jsnum

section \<open>Grouped counting\<close>

text \<open>
  \<^verbatim>\<open>CountObject\<close> is an object used as a dictionary from a label to its count: the
  accumulator of every \<^verbatim>\<open>reduce\<close> of lines 313-354 starts as the plain object
  \<^verbatim>\<open>{}\<close>. Its own properties are an association list in insertion order, which is the
  order \<^verbatim>\<open>Object.keys\<close> lists labels in when they are not array indices (the
  sums below do not depend on the order, and the breakdowns written out below have no
  such label). A plain object inherits the members of
  \<^verbatim>\<open>Object.prototype\<close>, and a read \<^verbatim>\<open>acc[k]\<close> of a label that is not an own property
  finds them.
\<close>

type_synonym CountObject = "(string \<times> jsprop) list"

definition objectPrototypeKeys :: "string list" where
  "objectPrototypeKeys =
     [''constructor'', ''__defineGetter__'', ''__defineSetter__'', ''hasOwnProperty'',
      ''__lookupGetter__'', ''__lookupSetter__'', ''isPrototypeOf'', ''propertyIsEnumerable'',
      ''toString'', ''valueOf'', ''__proto__'', ''toLocaleString'']"

text \<open>
  The callback \<^verbatim>\<open>acc[k] = (acc[k] || 0) + 1\<close>. The read gives the own property, else
  the inherited member, else \<^verbatim>\<open>undefined\<close>. A number is incremented; a string, a
  function or an object is truthy and \<^verbatim>\<open>+ 1\<close> appends the character \<^verbatim>\<open>1\<close> to its
  text. The write makes or replaces an own property, but for the label
  \<^verbatim>\<open>__proto__\<close>, whose setter ignores every value that is not an object.
\<close>

definition countUp :: "CountObject \<Rightarrow> string \<Rightarrow> CountObject" where
  "countUp acc k =
     (let newValue =
            (case map_of acc k of
               Some (Num c) \<Rightarrow> Num ((if c = 0 then 0 else c) + 1)
             | Some (Txt m n) \<Rightarrow> Txt m (n + 1)
             | None \<Rightarrow> if k \<in> set objectPrototypeKeys then Txt k 1 else Num 1)
      in if k = ''__proto__'' then acc else AList.update k newValue acc)"

definition calculateSeverityCounts :: "EdrDataType list \<Rightarrow> CountObject" where
  "calculateSeverityCounts data = foldl (\<lambda>acc alert. countUp acc (Severity alert)) [] data"

definition calculateAlertTypeCounts :: "EdrDataType list \<Rightarrow> CountObject" where
  "calculateAlertTypeCounts data = foldl (\<lambda>acc alert. countUp acc (AlertType alert)) [] data"

definition calculateStatusCounts :: "EdrDataType list \<Rightarrow> CountObject" where
  "calculateStatusCounts data = foldl (\<lambda>acc alert. countUp acc (Status alert)) [] data"

definition calculateVulnSeverityCounts :: "VulnDataType list \<Rightarrow> CountObject" where
  "calculateVulnSeverityCounts data = foldl (\<lambda>acc vuln. countUp acc (vSeverity vuln)) [] data"

definition calculateVulnStatusCounts :: "VulnDataType list \<Rightarrow> CountObject" where
  "calculateVulnStatusCounts data = foldl (\<lambda>acc vuln. countUp acc (vStatus vuln)) [] data"

definition calculateSourceCounts :: "VulnDataType list \<Rightarrow> CountObject" where
  "calculateSourceCounts data = foldl (\<lambda>acc vuln. countUp acc (DetectionSource vuln)) [] data"

text \<open>
  The conversion written out six times in the source (lines 178-182, 187-191, 207-211,
  233-237, 242-246, 251-255):
  \<^verbatim>\<open>Object.keys(counts).map(key => ({ name: key, value: counts[key],
     percentage: (counts[key] / total) * 100 }))\<close>.
  \<open>countOf\<close> is the read \<^verbatim>\<open>counts[key]\<close>; it is only applied to own keys of the
  object, where it finds the own property.
\<close>

definition countOf :: "CountObject \<Rightarrow> string \<Rightarrow> jsprop" where
  "countOf counts key = (case map_of counts key of None \<Rightarrow> Num 0 | Some v \<Rightarrow> v)"

definition chartData :: "CountObject \<Rightarrow> nat \<Rightarrow> ChartEntry list" where
  "chartData counts denominator =
     map (\<lambda>key. \<lparr> name = key, val = countOf counts key,
                  percentage = js_mul (js_div (propNumber (countOf counts key)) (Fin (real denominator))) (Fin 100) \<rparr>)
         (map fst counts)"

section \<open>The alert aggregator\<close>

text \<open>\<^verbatim>\<open>calculateEdrKpis\<close> (lines 162-223); the result is the record handed to
  \<^verbatim>\<open>setEdrKpis\<close>.\<close>

definition calculateEdrKpis :: "EdrDataType list \<Rightarrow> EdrKpis" where
  "calculateEdrKpis data =
    (let totalAlerts = length data;
         criticalAlerts = length (filter (\<lambda>alert. Severity alert = ''Critical'') data);
         criticalRate = js_mul (js_div (Fin (real criticalAlerts)) (Fin (real totalAlerts))) (Fin 100);
         alertsWithIoC = length (filter (\<lambda>alert. truthy_str (IOCType alert)
                            \<and> IOCType alert \<noteq> Some ''None'' \<and> IOCType alert \<noteq> Some '''') data);
         iocDetectionRate = js_mul (js_div (Fin (real alertsWithIoC)) (Fin (real totalAlerts))) (Fin 100);
         severityData = chartData (calculateSeverityCounts data) totalAlerts;
         alertTypeData = chartData (calculateAlertTypeCounts data) totalAlerts;
         networkConnections = length (filter (\<lambda>alert. AlertType alert = ''Network Connection'') data);
         suspiciousConnections = length (filter (\<lambda>alert. AlertType alert = ''Network Connection''
                            \<and> (Severity alert = ''Critical'' \<or> Severity alert = ''High'')) data);
         suspiciousConnectionRate =
           (if networkConnections \<noteq> 0
            then js_mul (js_div (Fin (real suspiciousConnections)) (Fin (real networkConnections))) (Fin 100)
            else Fin 0);
         uniqueEndpoints = spreadSet (map Hostname data);
         statusData = chartData (calculateStatusCounts data) totalAlerts
     in \<lparr> totalAlerts = totalAlerts,
          criticalRate = criticalRate,
          iocDetectionRate = iocDetectionRate,
          severityData = severityData,
          alertTypeData = alertTypeData,
          suspiciousConnectionRate = suspiciousConnectionRate,
          uniqueEndpoints = length uniqueEndpoints,
          statusData = statusData \<rparr>)"

section \<open>The vulnerability aggregator\<close>

text \<open>
  \<^verbatim>\<open>new Date(s).getTime()\<close> is the host's: \<open>parseDate s\<close> is the time value in
  milliseconds of the date the host reads in \<open>s\<close>, and \<open>None\<close> when it reads none (an
  invalid date, whose time value is NaN). The aggregator only builds dates from fields
  that passed the truthiness test of line 262.
\<close>

definition getTime :: "(string \<Rightarrow> real option) \<Rightarrow> string option \<Rightarrow> jsnum" where
  "getTime parseDate d =
     (case d of None \<Rightarrow> NaN
      | Some s \<Rightarrow> (case parseDate s of None \<Rightarrow> NaN | Some t \<Rightarrow> Fin t))"

text \<open>Lines 262: the resolved records with both dates.\<close>

definition resolvedVulns :: "VulnDataType list \<Rightarrow> VulnDataType list" where
  "resolvedVulns data =
     filter (\<lambda>vuln. vStatus vuln = ''Resolved'' \<and> truthy_str (PatchAppliedDate vuln)
                     \<and> truthy_str (DetectionDate vuln)) data"

text \<open>Lines 266-269 and 287-289: \<^verbatim>\<open>(patchDate.getTime() - detectionDate.getTime()) / (1000 * 60 * 60 * 24)\<close>.\<close>

definition daysDiff :: "(string \<Rightarrow> real option) \<Rightarrow> VulnDataType \<Rightarrow> jsnum" where
  "daysDiff parseDate vuln =
     js_div (js_sub (getTime parseDate (PatchAppliedDate vuln)) (getTime parseDate (DetectionDate vuln)))
            (Fin (1000 * 60 * 60 * 24))"

text \<open>Line 290, \<^verbatim>\<open>vuln.RecommendedTimeframe || Infinity\<close>, as the number that the
  comparison of line 292 reads in it.\<close>

definition recommendedDays :: "VulnDataType \<Rightarrow> jsnum" where
  "recommendedDays vuln =
     (case RecommendedTimeframe vuln of None \<Rightarrow> PosInf
      | Some c \<Rightarrow> if truthy_cell c then cellNumber c else PosInf)"

text \<open>\<^verbatim>\<open>calculateVulnKpis\<close> (lines 226-310); the two \<^verbatim>\<open>forEach\<close> loops are folds over
  their accumulators \<^verbatim>\<open>totalRemediationTime\<close> and \<^verbatim>\<open>patchesInTime\<close>.\<close>

definition calculateVulnKpis :: "(string \<Rightarrow> real option) \<Rightarrow> VulnDataType list \<Rightarrow> VulnKpis" where
  "calculateVulnKpis parseDate data =
    (let totalVulnerabilities = length data;
         severityData = chartData (calculateVulnSeverityCounts data) totalVulnerabilities;
         statusData = chartData (calculateVulnStatusCounts data) totalVulnerabilities;
         sourceData = chartData (calculateSourceCounts data) totalVulnerabilities;
         resolvedVulnerabilities = length (filter (\<lambda>vuln. vStatus vuln = ''Resolved'') data);
         remediationRate =
           js_mul (js_div (Fin (real resolvedVulnerabilities)) (Fin (real totalVulnerabilities))) (Fin 100);
         resolved = resolvedVulns data;
         totalRemediationTime =
           foldl (\<lambda>acc vuln. js_add acc (daysDiff parseDate vuln)) (Fin 0) resolved;
         avgRemediationTime =
           (if length resolved > 0 then js_div totalRemediationTime (Fin (real (length resolved)))
            else Fin 0);
         criticalAssets = spreadSet (map AssetID (filter (\<lambda>vuln. IsCritical vuln = ''Oui'') data));
         unpatchableCriticalAssets =
           spreadSet (map AssetID (filter (\<lambda>vuln. IsCritical vuln = ''Oui'' \<and> IsPatchable vuln = ''Non'') data));
         criticalVulnerabilityRate =
           (if length criticalAssets > 0
            then js_mul (js_div (Fin (real (length unpatchableCriticalAssets)))
                                (Fin (real (length criticalAssets)))) (Fin 100)
            else Fin 0);
         patchesInTime =
           foldl (\<lambda>n vuln. if js_le (daysDiff parseDate vuln) (recommendedDays vuln) then n + 1 else n)
                 (0::nat) resolved;
         patchesInTimeRate =
           (if length resolved > 0
            then js_mul (js_div (Fin (real patchesInTime)) (Fin (real (length resolved)))) (Fin 100)
            else Fin 0)
     in \<lparr> totalVulnerabilities = totalVulnerabilities,
          vSeverityData = severityData,
          vStatusData = statusData,
          sourceData = sourceData,
          remediationRate = remediationRate,
          avgRemediationTime = avgRemediationTime,
          criticalVulnerabilityRate = criticalVulnerabilityRate,
          patchesInTimeRate = patchesInTimeRate \<rparr>)"

section \<open>Loading and display\<close>

text \<open>
  The component state of lines 90-117 with the diagnostic log beside it. The host gives
  \<^verbatim>\<open>fetch\<close>, \<^verbatim>\<open>response.text()\<close>, \<^verbatim>\<open>Papa.parse\<close> and \<^verbatim>\<open>new Date\<close>; each of the
  first three may throw, which is the value \<open>Inl\<close>. A response that arrives carries its
  \<^verbatim>\<open>ok\<close> flag (false for a status such as 404) and a parse result its list of
  \<^verbatim>\<open>errors\<close> beside its \<^verbatim>\<open>data\<close>; \<^verbatim>\<open>loadData\<close> reads neither.
\<close>

type_synonym js_error = string

record Response =
  ok :: bool
  responseText :: "js_error + string"

record 'row ParseResult =
  resultData :: "'row list"
  resultErrors :: "string list"

record Host =
  fetch :: "string \<Rightarrow> js_error + Response"
  papaParseEdr :: "string \<Rightarrow> js_error + EdrDataType ParseResult"
  papaParseVuln :: "string \<Rightarrow> js_error + VulnDataType ParseResult"
  newDate :: "string \<Rightarrow> real option"

record DashboardState =
  edrData :: "EdrDataType list"
  vulnData :: "VulnDataType list"
  edrKpis :: EdrKpis
  vulnKpis :: VulnKpis
  loading :: bool
  console :: "(string \<times> js_error) list"

text \<open>The initial values of the \<^verbatim>\<open>useState\<close> calls (lines 90-117).\<close>

definition initialEdrKpis :: EdrKpis where
  "initialEdrKpis =
     \<lparr> totalAlerts = 0, criticalRate = Fin 0, iocDetectionRate = Fin 0, severityData = [],
       alertTypeData = [], suspiciousConnectionRate = Fin 0, uniqueEndpoints = 0, statusData = [] \<rparr>"

definition initialVulnKpis :: VulnKpis where
  "initialVulnKpis =
     \<lparr> totalVulnerabilities = 0, vSeverityData = [], vStatusData = [], sourceData = [],
       remediationRate = Fin 0, avgRemediationTime = Fin 0, criticalVulnerabilityRate = Fin 0,
       patchesInTimeRate = Fin 0 \<rparr>"

definition initialState :: DashboardState where
  "initialState =
     \<lparr> edrData = [], vulnData = [], edrKpis = initialEdrKpis, vulnKpis = initialVulnKpis,
       loading = True, console = [] \<rparr>"

text \<open>Lines 127-142: the six awaited or called steps of the \<^verbatim>\<open>try\<close> block that come
  before any state is set. The first one that throws ends the block.\<close>

definition loadSources :: "Host \<Rightarrow> js_error + (EdrDataType list \<times> VulnDataType list)" where
  "loadSources host =
     (case fetch host ''/public/edr_data.csv'' of Inl e \<Rightarrow> Inl e | Inr edrResponse \<Rightarrow>
     (case responseText edrResponse of Inl e \<Rightarrow> Inl e | Inr edrText \<Rightarrow>
     (case papaParseEdr host edrText of Inl e \<Rightarrow> Inl e | Inr edrResult \<Rightarrow>
     (case fetch host ''/public/vulnerabilities_data.csv'' of Inl e \<Rightarrow> Inl e | Inr vulnResponse \<Rightarrow>
     (case responseText vulnResponse of Inl e \<Rightarrow> Inl e | Inr vulnText \<Rightarrow>
     (case papaParseVuln host vulnText of Inl e \<Rightarrow> Inl e | Inr vulnResult \<Rightarrow>
      Inr (resultData edrResult, resultData vulnResult)))))))"

text \<open>The message of line 153, in UTF-8.\<close>

definition loadErrorMessage :: string where
  "loadErrorMessage =
     ''Erreur lors du chargement des donn'' @ [char_of (0xC3::nat), char_of (0xA9::nat)] @ ''es:''"

text \<open>\<^verbatim>\<open>loadData\<close> (lines 124-156): lines 144-151 when nothing threw, the
  \<^verbatim>\<open>catch\<close> of lines 152-155 otherwise.\<close>

definition loadData :: "Host \<Rightarrow> DashboardState \<Rightarrow> DashboardState" where
  "loadData host st =
     (case loadSources host of
        Inr (edrResult, vulnResult) \<Rightarrow>
          st \<lparr> edrData := edrResult, vulnData := vulnResult,
               edrKpis := calculateEdrKpis edrResult,
               vulnKpis := calculateVulnKpis (newDate host) vulnResult,
               loading := False \<rparr>
      | Inl error \<Rightarrow>
          st \<lparr> console := console st @ [(loadErrorMessage, error)], loading := False \<rparr>)"

text \<open>What the component returns (lines 356-553): the spinner while \<^verbatim>\<open>loading\<close>, and
  otherwise the page, whose cards and charts read the two summaries and nothing else of
  the state.\<close>

datatype View = Spinner | Page EdrKpis VulnKpis

definition render :: "DashboardState \<Rightarrow> View" where
  "render st = (if loading st then Spinner else Page (edrKpis st) (vulnKpis st))"

section \<open>Quantities the statements are written with\<close>


text \<open>The days from detection to patch of a record as a real number, when both fields
  hold a text in which the host reads a date.\<close>

definition elapsedDays :: "(string \<Rightarrow> real option) \<Rightarrow> VulnDataType \<Rightarrow> real option" where
  "elapsedDays parseDate vuln =
     (case (PatchAppliedDate vuln, DetectionDate vuln) of
        (Some p, Some d) \<Rightarrow>
          (case (parseDate p, parseDate d) of
             (Some tp, Some td) \<Rightarrow> Some ((tp - td) / 86400000)
           | _ \<Rightarrow> None)
      | _ \<Rightarrow> None)"

text \<open>On time, in the words of the specification: elapsed days at most the recommended
  timeframe, an absent timeframe being unbounded.\<close>

definition spec_onTime :: "(string \<Rightarrow> real option) \<Rightarrow> VulnDataType \<Rightarrow> bool" where
  "spec_onTime parseDate vuln =
     (case RecommendedTimeframe vuln of None \<Rightarrow> True
      | Some c \<Rightarrow>
          (case elapsedDays parseDate vuln of None \<Rightarrow> False
           | Some x \<Rightarrow> js_le (Fin x) (cellNumber c)))"

definition spec_onTimePatchRate :: "(string \<Rightarrow> real option) \<Rightarrow> VulnDataType list \<Rightarrow> jsnum" where
  "spec_onTimePatchRate parseDate data =
     (let subset = filter (\<lambda>v. vStatus v = ''Resolved''
                        \<and> PatchAppliedDate v \<noteq> None \<and> PatchAppliedDate v \<noteq> Some []
                        \<and> DetectionDate v \<noteq> None \<and> DetectionDate v \<noteq> Some []) data
      in if subset = [] then Fin 0
         else Fin (100 * real (length (filter (spec_onTime parseDate) subset)) / real (length subset)))"

text \<open>On time, with a timeframe of 0 unbounded as an absent one is: for a record whose
  timeframe is absent or a number and whose dates the host reads.\<close>

definition onTime :: "(string \<Rightarrow> real option) \<Rightarrow> VulnDataType \<Rightarrow> bool" where
  "onTime parseDate vuln =
     (case RecommendedTimeframe vuln of None \<Rightarrow> True
      | Some (NumCell (Fin t)) \<Rightarrow>
          t = 0 \<or> (case elapsedDays parseDate vuln of None \<Rightarrow> False | Some x \<Rightarrow> x \<le> t)
      | Some c \<Rightarrow> False)"

text \<open>A data-load failure, in the words of the specification: a network or parse failure
  on either source. A step that throws is one; so is a response that is not \<^verbatim>\<open>ok\<close>, and
  a parse that reports errors.\<close>

definition spec_sourceFailure ::
    "Host \<Rightarrow> string \<Rightarrow> (string \<Rightarrow> js_error + 'row ParseResult) \<Rightarrow> bool" where
  "spec_sourceFailure host url parse =
     (case fetch host url of Inl e \<Rightarrow> True | Inr response \<Rightarrow>
        (if ok response
         then (case responseText response of Inl e \<Rightarrow> True | Inr t \<Rightarrow>
                 (case parse t of Inl e \<Rightarrow> True | Inr result \<Rightarrow> resultErrors result \<noteq> []))
         else True))"

definition spec_loadFailure :: "Host \<Rightarrow> bool" where
  "spec_loadFailure host =
     (spec_sourceFailure host ''/public/edr_data.csv'' (papaParseEdr host)
      \<or> spec_sourceFailure host ''/public/vulnerabilities_data.csv'' (papaParseVuln host))"

text \<open>Sample inputs. The host reads ISO dates as UTC midnight: 1 January 2024 is
  1704067200000 ms, and a day is 86400000 ms.\<close>

definition sampleDate :: "string \<Rightarrow> real option" where
  "sampleDate s =
     (if s = ''2024-01-01'' then Some 1704067200000
      else if s = ''2024-01-02T12:00:00Z'' then Some 1704196800000
      else if s = ''2024-01-03'' then Some 1704240000000
      else if s = ''2024-01-05'' then Some 1704412800000
      else None)"

definition alert :: "string \<Rightarrow> string \<Rightarrow> EdrDataType" where
  "alert sev ty =
     \<lparr> Severity = sev, IOCType = None, AlertType = ty, Status = ''Open'', Hostname = ''host-1'' \<rparr>"

definition vuln :: "string \<Rightarrow> string option \<Rightarrow> string option \<Rightarrow> string \<Rightarrow> string \<Rightarrow> cell option \<Rightarrow> VulnDataType" where
  "vuln st det patch crit patchable tf =
     \<lparr> vSeverity = ''High'', vStatus = st, DetectionSource = ''Scanner'', DetectionDate = det,
       PatchAppliedDate = patch, IsCritical = crit, IsPatchable = patchable,
       AssetID = ''asset-1'', RecommendedTimeframe = tf \<rparr>"

definition noRows :: "'row ParseResult" where
  "noRows = \<lparr> resultData = [], resultErrors = [] \<rparr>"

definition failingHost :: Host where
  "failingHost =
     \<lparr> fetch = (\<lambda>url. Inl ''TypeError: Failed to fetch''),
       papaParseEdr = (\<lambda>t. Inr noRows), papaParseVuln = (\<lambda>t. Inr noRows), newDate = sampleDate \<rparr>"

text \<open>The number that \<^verbatim>\<open>toFixed(1)\<close> prints for a finite number that is not negative
  (lines 387-485 print every rate this way): the nearest tenth, a half going up.\<close>

definition toFixed1 :: "real \<Rightarrow> real" where
  "toFixed1 x = real_of_int \<lfloor>x * 10 + 1 / 2\<rfloor> / 10"

text \<open>A host whose first source loads and whose second does not.\<close>

definition halfFailingHost :: Host where
  "halfFailingHost =
     \<lparr> fetch = (\<lambda>url. if url = ''/public/edr_data.csv''
                          then Inr \<lparr> ok = True,
                                     responseText = Inr ''Severity,IOCType,AlertType,Status,Hostname'' \<rparr>
                          else Inl ''TypeError: Failed to fetch''),
       papaParseEdr = (\<lambda>t. Inr \<lparr> resultData = [alert ''Critical'' ''Process''], resultErrors = [] \<rparr>),
       papaParseVuln = (\<lambda>t. Inr noRows), newDate = sampleDate \<rparr>"

text \<open>A host whose alert file is malformed: the parser throws nothing, and returns the
  rows it could read with the errors it met.\<close>

definition malformedCsvHost :: Host where
  "malformedCsvHost =
     \<lparr> fetch = (\<lambda>url. Inr \<lparr> ok = True, responseText = Inr ''Severity,AlertType'' \<rparr>),
       papaParseEdr = (\<lambda>t. Inr \<lparr> resultData = [alert ''Critical'' ''Process''],
                                  resultErrors = [''TooFewFields''] \<rparr>),
       papaParseVuln = (\<lambda>t. Inr noRows), newDate = sampleDate \<rparr>"

text \<open>A host that answers both requests with status 404: \<^verbatim>\<open>fetch\<close> resolves, and the
  parser finds a header line and no row in the body.\<close>

definition notFoundHost :: Host where
  "notFoundHost =
     \<lparr> fetch = (\<lambda>url. Inr \<lparr> ok = False, responseText = Inr ''Not Found'' \<rparr>),
       papaParseEdr = (\<lambda>t. Inr noRows), papaParseVuln = (\<lambda>t. Inr noRows), newDate = sampleDate \<rparr>"


section \<open>Rates of the alert aggregator\<close>

lemma criticalRate_nonempty:
  "data \<noteq> [] \<Longrightarrow>
   criticalRate (calculateEdrKpis data) =
     Fin (100 * real (length (filter (\<lambda>a. Severity a = ''Critical'') data)) / real (length data))"
  by (simp add: calculateEdrKpis_def Let_def)

lemma calculateEdrKpis_empty:
  "calculateEdrKpis [] =
     \<lparr> totalAlerts = 0, criticalRate = NaN, iocDetectionRate = NaN, severityData = [],
       alertTypeData = [], suspiciousConnectionRate = Fin 0, uniqueEndpoints = 0, statusData = [] \<rparr>"
  by (simp add: calculateEdrKpis_def chartData_def calculateSeverityCounts_def
      calculateAlertTypeCounts_def calculateStatusCounts_def spreadSet_def)

lemma calculateVulnKpis_empty:
  "calculateVulnKpis parseDate [] =
     \<lparr> totalVulnerabilities = 0, vSeverityData = [], vStatusData = [], sourceData = [],
       remediationRate = NaN, avgRemediationTime = Fin 0, criticalVulnerabilityRate = Fin 0,
       patchesInTimeRate = Fin 0 \<rparr>"
  by (simp add: calculateVulnKpis_def chartData_def calculateVulnSeverityCounts_def
      calculateVulnStatusCounts_def calculateSourceCounts_def spreadSet_def resolvedVulns_def)

text \<open>
  C1. On the empty record list both aggregators give total 0, but not every rate is 0:
  \<^verbatim>\<open>criticalRate\<close> and \<^verbatim>\<open>iocDetectionRate\<close> (lines 168 and 172) and
  \<^verbatim>\<open>remediationRate\<close> (line 259) divide by the length with no guard and are NaN. The
  four rates that test their denominator (lines 199, 273, 281, 297) are 0.
\<close>

theorem empty_summaries_have_NaN_rates:
  "totalAlerts (calculateEdrKpis []) = 0
   \<and> criticalRate (calculateEdrKpis []) = NaN
   \<and> iocDetectionRate (calculateEdrKpis []) = NaN
   \<and> suspiciousConnectionRate (calculateEdrKpis []) = Fin 0
   \<and> totalVulnerabilities (calculateVulnKpis parseDate []) = 0
   \<and> remediationRate (calculateVulnKpis parseDate []) = NaN
   \<and> avgRemediationTime (calculateVulnKpis parseDate []) = Fin 0
   \<and> criticalVulnerabilityRate (calculateVulnKpis parseDate []) = Fin 0
   \<and> patchesInTimeRate (calculateVulnKpis parseDate []) = Fin 0"
  by (simp add: calculateEdrKpis_empty calculateVulnKpis_empty)

text \<open>
  C7. \<^verbatim>\<open>criticalRate\<close> is 100 times the number of records of severity Critical over the
  number of records when there is a record; with no record it is NaN, not 0.
\<close>

theorem criticalRate_value:
  "criticalRate (calculateEdrKpis data) =
     (if data = [] then NaN
      else Fin (100 * real (length (filter (\<lambda>a. Severity a = ''Critical'') data)) / real (length data)))"
  by (simp add: calculateEdrKpis_def Let_def)

text \<open>The example of C7: severities Critical, Critical, Low, whatever the other fields.\<close>

lemma criticalRate_example:
  assumes "Severity a = ''Critical''" and "Severity b = ''Critical''" and "Severity c = ''Low''"
  shows "totalAlerts (calculateEdrKpis [a, b, c]) = 3"
    and "criticalRate (calculateEdrKpis [a, b, c]) = Fin (200 / 3)"
    and "severityData (calculateEdrKpis [a, b, c]) =
           [\<lparr> name = ''Critical'', val = Num 2, percentage = Fin (200 / 3) \<rparr>,
            \<lparr> name = ''Low'', val = Num 1, percentage = Fin (100 / 3) \<rparr>]"
    and "toFixed1 (200 / 3) = 66.7" and "toFixed1 (100 / 3) = 33.3"
proof -
  show "totalAlerts (calculateEdrKpis [a, b, c]) = 3"
    by (simp add: calculateEdrKpis_def Let_def)
  show "criticalRate (calculateEdrKpis [a, b, c]) = Fin (200 / 3)"
    using assms by (simp add: criticalRate_nonempty)
  have "calculateSeverityCounts [a, b, c] = [(''Critical'', Num 2), (''Low'', Num 1)]"
    using assms by (simp add: calculateSeverityCounts_def countUp_def objectPrototypeKeys_def)
  then show "severityData (calculateEdrKpis [a, b, c]) =
           [\<lparr> name = ''Critical'', val = Num 2, percentage = Fin (200 / 3) \<rparr>,
            \<lparr> name = ''Low'', val = Num 1, percentage = Fin (100 / 3) \<rparr>]"
    by (simp add: calculateEdrKpis_def Let_def chartData_def countOf_def propNumber_def)
  have "\<lfloor>(2003 / 3 :: real)\<rfloor> = 667" by linarith
  then show "toFixed1 (200 / 3) = 66.7" by (simp add: toFixed1_def)
  have "\<lfloor>(1003 / 3 :: real)\<rfloor> = 334" by linarith
  then show "toFixed1 (100 / 3) = 33.3" by (simp add: toFixed1_def)
qed

text \<open>
  C6. \<^verbatim>\<open>suspiciousConnectionRate\<close> is 100 times the number of Network Connection
  records of severity Critical or High over the number of Network Connection records,
  and 0 when there is no Network Connection record.
\<close>

theorem suspiciousConnectionRate_value:
  "suspiciousConnectionRate (calculateEdrKpis data) =
     (let network = filter (\<lambda>a. AlertType a = ''Network Connection'') data;
          suspicious = filter (\<lambda>a. Severity a = ''Critical'' \<or> Severity a = ''High'') network
      in if network = [] then Fin 0
         else Fin (100 * real (length suspicious) / real (length network)))"
  by (simp add: calculateEdrKpis_def Let_def conj_commute)

theorem suspiciousConnectionRate_witness:
  "suspiciousConnectionRate
     (calculateEdrKpis [alert ''Critical'' ''Network Connection'', alert ''Low'' ''Network Connection'',
                        alert ''High'' ''Process'', alert ''High'' ''Network Connection'']) = Fin (200 / 3)"
  using suspiciousConnectionRate_value
    [of "[alert ''Critical'' ''Network Connection'', alert ''Low'' ''Network Connection'',
          alert ''High'' ''Process'', alert ''High'' ''Network Connection'']"]
  by (simp add: alert_def)

text \<open>
  C8. Appending a record of severity Critical never decreases \<^verbatim>\<open>criticalRate\<close>: the
  new rate is not less than the old one, and from a list with a record on (where the old
  rate is a number) the old rate is at most the new one.
\<close>

theorem criticalRate_monotone:
  assumes "Severity a = ''Critical''"
  shows "\<not> js_lt (criticalRate (calculateEdrKpis (data @ [a]))) (criticalRate (calculateEdrKpis data))
     \<and> (data \<noteq> [] \<longrightarrow>
          js_le (criticalRate (calculateEdrKpis data)) (criticalRate (calculateEdrKpis (data @ [a]))))"
proof (cases "data = []")
  case True
  then show ?thesis by (simp add: calculateEdrKpis_def Let_def)
next
  case False
  define c where "c = length (filter (\<lambda>a. Severity a = ''Critical'') data)"
  define n where "n = length data"
  have cn: "c \<le> n" unfolding c_def n_def by simp
  have n0: "0 < n" using False unfolding n_def by simp
  have old: "criticalRate (calculateEdrKpis data) = Fin (100 * real c / real n)"
    using criticalRate_nonempty [OF False] by (simp add: c_def n_def)
  have new: "criticalRate (calculateEdrKpis (data @ [a])) = Fin (100 * real (c + 1) / real (n + 1))"
    using criticalRate_nonempty [of "data @ [a]"] assms by (simp add: c_def n_def)
  have "real c * real (n + 1) \<le> real (c + 1) * real n"
  proof -
    have "c * (n + 1) \<le> (c + 1) * n" using cn by simp
    then show ?thesis by (metis of_nat_le_iff of_nat_mult)
  qed
  then have "real c / real n \<le> real (c + 1) / real (n + 1)"
    using n0 by (simp add: field_simps)
  then have "100 * (real c / real n) \<le> 100 * (real (c + 1) / real (n + 1))"
    by (intro mult_left_mono) simp_all
  then have le: "100 * real c / real n \<le> 100 * real (c + 1) / real (n + 1)"
    by (simp only: times_divide_eq_right)
  show ?thesis using False le unfolding old new by simp
qed

theorem criticalRate_monotone_witness:
  "Severity (alert ''Critical'' ''Process'') = ''Critical''
   \<and> [alert ''Low'' ''Process''] \<noteq> []
   \<and> \<not> js_lt (criticalRate (calculateEdrKpis ([alert ''Low'' ''Process''] @ [alert ''Critical'' ''Process''])))
              (criticalRate (calculateEdrKpis [alert ''Low'' ''Process'']))
   \<and> js_le (criticalRate (calculateEdrKpis [alert ''Low'' ''Process'']))
           (criticalRate (calculateEdrKpis ([alert ''Low'' ''Process''] @ [alert ''Critical'' ''Process''])))"
  using criticalRate_monotone [of "alert ''Critical'' ''Process''" "[alert ''Low'' ''Process'']"]
  by (simp add: alert_def)

section \<open>Breakdowns\<close>


















section \<open>Rates of the vulnerability aggregator\<close>

lemma length_spreadSet: "length (spreadSet xs) = card (set xs)"
  by (simp add: spreadSet_def length_remdups_card_conv)

lemma criticalVulnerabilityRate_unfold:
  "criticalVulnerabilityRate (calculateVulnKpis parseDate data) =
     (if length (spreadSet (map AssetID (filter (\<lambda>v. IsCritical v = ''Oui'') data))) > 0
      then js_mul (js_div
             (Fin (real (length (spreadSet (map AssetID
                (filter (\<lambda>v. IsCritical v = ''Oui'' \<and> IsPatchable v = ''Non'') data))))))
             (Fin (real (length (spreadSet (map AssetID (filter (\<lambda>v. IsCritical v = ''Oui'') data)))))))
             (Fin 100)
      else Fin 0)"
  by (simp only: calculateVulnKpis_def Let_def VulnKpis.select_convs)

lemma criticalVulnerabilityRate_cards:
  "criticalVulnerabilityRate (calculateVulnKpis parseDate data) =
     (if card (set (map AssetID (filter (\<lambda>v. IsCritical v = ''Oui'') data))) = 0 then Fin 0
      else Fin (100 * real (card (set (map AssetID (filter (\<lambda>v. IsCritical v = ''Oui'' \<and> IsPatchable v = ''Non'') data))))
                 / real (card (set (map AssetID (filter (\<lambda>v. IsCritical v = ''Oui'') data))))))"
proof (cases "card (set (map AssetID (filter (\<lambda>v. IsCritical v = ''Oui'') data))) = 0")
  case True
  then show ?thesis
    by (simp only: criticalVulnerabilityRate_unfold length_spreadSet) simp
next
  case False
  then show ?thesis
    by (simp only: criticalVulnerabilityRate_unfold length_spreadSet) simp
qed

text \<open>
  C4. \<^verbatim>\<open>criticalVulnerabilityRate\<close> (the critical-asset exposure rate) is 100 times the
  number of distinct asset identifiers among the records that are critical and not
  patchable over the number of distinct asset identifiers among the critical records,
  and 0 when no record is critical. The flags are the strings \<^verbatim>\<open>Oui\<close> and \<^verbatim>\<open>Non\<close>.
\<close>

theorem criticalAssetExposureRate_value:
  "criticalVulnerabilityRate (calculateVulnKpis parseDate data) =
     (let criticalAssets = AssetID ` {v \<in> set data. IsCritical v = ''Oui''};
          unpatchableCritical = AssetID ` {v \<in> set data. IsCritical v = ''Oui'' \<and> IsPatchable v = ''Non''}
      in if criticalAssets = {} then Fin 0
         else Fin (100 * real (card unpatchableCritical) / real (card criticalAssets)))"
proof -
  have 1: "set (map AssetID (filter P data)) = AssetID ` {v \<in> set data. P v}" for P
    by simp
  have 2: "(card (AssetID ` {v \<in> set data. IsCritical v = ''Oui''}) = 0)
             = (AssetID ` {v \<in> set data. IsCritical v = ''Oui''} = {})"
    by (rule card_0_eq) simp
  show ?thesis
    unfolding criticalVulnerabilityRate_cards 1 2 Let_def by (rule refl)
qed

text \<open>The example of C4: one asset with a critical record that is not patchable and a
  record that is not critical.\<close>

theorem criticalAssetExposureRate_witness:
  "criticalVulnerabilityRate (calculateVulnKpis sampleDate
      [vuln ''Open'' None None ''Oui'' ''Non'' None, vuln ''Open'' None None ''Non'' ''Oui'' None]) = Fin 100"
proof -
  have "{v \<in> set [vuln ''Open'' None None ''Oui'' ''Non'' None, vuln ''Open'' None None ''Non'' ''Oui'' None].
           IsCritical v = ''Oui''} = {vuln ''Open'' None None ''Oui'' ''Non'' None}"
    by (auto simp: vuln_def)
  moreover have "{v \<in> set [vuln ''Open'' None None ''Oui'' ''Non'' None, vuln ''Open'' None None ''Non'' ''Oui'' None].
           IsCritical v = ''Oui'' \<and> IsPatchable v = ''Non''} = {vuln ''Open'' None None ''Oui'' ''Non'' None}"
    by (auto simp: vuln_def)
  ultimately show ?thesis
    using criticalAssetExposureRate_value
      [of sampleDate "[vuln ''Open'' None None ''Oui'' ''Non'' None, vuln ''Open'' None None ''Non'' ''Oui'' None]"]
    by (simp add: Let_def)
qed

text \<open>
  C10. \<^verbatim>\<open>criticalVulnerabilityRate\<close> is a number between 0 and 100: the assets counted
  as critical and not patchable are among the assets counted as critical.
\<close>

theorem criticalAssetExposureRate_bounds:
  "\<exists>r. criticalVulnerabilityRate (calculateVulnKpis parseDate data) = Fin r \<and> 0 \<le> r \<and> r \<le> 100"
proof -
  define crit where "crit = set (map AssetID (filter (\<lambda>v. IsCritical v = ''Oui'') data))"
  define unp where
    "unp = set (map AssetID (filter (\<lambda>v. IsCritical v = ''Oui'' \<and> IsPatchable v = ''Non'') data))"
  have sub: "unp \<subseteq> crit" unfolding unp_def crit_def by auto
  have fin: "finite crit" unfolding crit_def by simp
  have le: "card unp \<le> card crit" using sub fin by (rule card_mono [rotated])
  have rate: "criticalVulnerabilityRate (calculateVulnKpis parseDate data) =
                (if card crit = 0 then Fin 0 else Fin (100 * real (card unp) / real (card crit)))"
    unfolding crit_def unp_def by (rule criticalVulnerabilityRate_cards)
  show ?thesis
  proof (cases "card crit = 0")
    case True
    then show ?thesis using rate by simp
  next
    case False
    then have pos: "0 < real (card crit)" by simp
    have "real (card unp) \<le> real (card crit)" using le by simp
    then have "100 * real (card unp) / real (card crit) \<le> 100"
      using pos by (simp add: field_simps)
    moreover have "0 \<le> 100 * real (card unp) / real (card crit)" by simp
    ultimately show ?thesis using rate False by simp
  qed
qed

section \<open>Remediation time and patches in time\<close>

text \<open>The filter of line 262 keeps the records whose status is Resolved and whose two
  dates are neither absent nor empty.\<close>

lemma resolvedVulns_fields:
  "resolvedVulns data =
     filter (\<lambda>v. vStatus v = ''Resolved''
               \<and> PatchAppliedDate v \<noteq> None \<and> PatchAppliedDate v \<noteq> Some []
               \<and> DetectionDate v \<noteq> None \<and> DetectionDate v \<noteq> Some []) data"
  unfolding resolvedVulns_def
  by (rule filter_cong) (auto simp: truthy_str_def split: option.splits)

lemma daysDiff_elapsedDays:
  "daysDiff parseDate v = (case elapsedDays parseDate v of Some x \<Rightarrow> Fin x | None \<Rightarrow> NaN)"
  by (simp add: daysDiff_def elapsedDays_def getTime_def js_sub_def split: option.splits)

lemma totalRemediationTime_NaN:
  "foldl (\<lambda>acc v. js_add acc (daysDiff parseDate v)) NaN vs = NaN"
  by (induction vs) simp_all

lemma totalRemediationTime_fold:
  "foldl (\<lambda>acc v. js_add acc (daysDiff parseDate v)) (Fin a) vs =
     (case those (map (elapsedDays parseDate) vs) of
        Some days \<Rightarrow> Fin (a + sum_list days)
      | None \<Rightarrow> NaN)"
proof (induction vs arbitrary: a)
  case Nil
  show ?case by simp
next
  case (Cons v vs)
  show ?case
  proof (cases "elapsedDays parseDate v")
    case None
    then have "daysDiff parseDate v = NaN"
      by (simp add: daysDiff_elapsedDays)
    then show ?thesis
      using None by (simp add: totalRemediationTime_NaN)
  next
    case (Some x)
    then have "daysDiff parseDate v = Fin x"
      by (simp add: daysDiff_elapsedDays)
    then show ?thesis
      using Some by (simp add: Cons.IH add.assoc split: option.splits)
  qed
qed

lemma those_length: "those xs = Some ys \<Longrightarrow> length ys = length xs"
  by (induction xs arbitrary: ys) (auto split: option.splits)

lemma avgRemediationTime_unfold:
  "avgRemediationTime (calculateVulnKpis parseDate data) =
     (if length (resolvedVulns data) > 0
      then js_div (foldl (\<lambda>acc v. js_add acc (daysDiff parseDate v)) (Fin 0) (resolvedVulns data))
                  (Fin (real (length (resolvedVulns data))))
      else Fin 0)"
  by (simp only: calculateVulnKpis_def Let_def VulnKpis.select_convs)

lemma avgRemediationTime_resolvedVulns:
  "avgRemediationTime (calculateVulnKpis parseDate data) =
     (if resolvedVulns data = [] then Fin 0
      else (case those (map (elapsedDays parseDate) (resolvedVulns data)) of
              Some days \<Rightarrow> Fin (sum_list days / real (length days))
            | None \<Rightarrow> NaN))"
proof (cases "resolvedVulns data = []")
  case True
  then show ?thesis by (simp add: avgRemediationTime_unfold)
next
  case False
  then have n: "real (length (resolvedVulns data)) \<noteq> 0" by simp
  show ?thesis
  proof (cases "those (map (elapsedDays parseDate) (resolvedVulns data))")
    case None
    then show ?thesis
      using False by (simp add: avgRemediationTime_unfold totalRemediationTime_fold)
  next
    case (Some days)
    then have "length days = length (resolvedVulns data)"
      using those_length by fastforce
    then show ?thesis
      using False Some n by (simp add: avgRemediationTime_unfold totalRemediationTime_fold)
  qed
qed

text \<open>
  C5. \<^verbatim>\<open>avgRemediationTime\<close> is the average, over the records whose status is Resolved
  and whose detection date and patch date are both present (neither absent nor empty),
  of the time from detection to patch in days (a real number, no rounding to calendar
  days), and 0 when there is no such record. When the host reads no date in a field of
  such a record, the difference and the average are NaN.
\<close>

theorem avgRemediationTime_value:
  "avgRemediationTime (calculateVulnKpis parseDate data) =
     (let subset = filter (\<lambda>v. vStatus v = ''Resolved''
                        \<and> PatchAppliedDate v \<noteq> None \<and> PatchAppliedDate v \<noteq> Some []
                        \<and> DetectionDate v \<noteq> None \<and> DetectionDate v \<noteq> Some []) data
      in if subset = [] then Fin 0
         else (case those (map (elapsedDays parseDate) subset) of
                 Some days \<Rightarrow> Fin (sum_list days / real (length days))
               | None \<Rightarrow> NaN))"
  unfolding Let_def resolvedVulns_fields [symmetric]
  by (rule avgRemediationTime_resolvedVulns)

text \<open>The example of C5: two resolved records patched 2 and 4 days after detection.
  The records between them do not count: one is not resolved, one has no patch date,
  one has an empty detection date, one has no detection date. And a record patched a
  day and a half after detection.\<close>

theorem avgRemediationTime_witness:
  "avgRemediationTime (calculateVulnKpis sampleDate
      [vuln ''Resolved'' (Some ''2024-01-01'') (Some ''2024-01-03'') ''Non'' ''Oui'' None,
       vuln ''Open'' (Some ''2024-01-01'') (Some ''2024-01-05'') ''Non'' ''Oui'' None,
       vuln ''Resolved'' (Some ''2024-01-01'') None ''Non'' ''Oui'' None,
       vuln ''Resolved'' (Some []) (Some ''2024-01-05'') ''Non'' ''Oui'' None,
       vuln ''Resolved'' None (Some ''2024-01-05'') ''Non'' ''Oui'' None,
       vuln ''Resolved'' (Some ''2024-01-01'') (Some ''2024-01-05'') ''Non'' ''Oui'' None]) = Fin 3
   \<and> avgRemediationTime (calculateVulnKpis sampleDate
      [vuln ''Resolved'' (Some ''2024-01-01'') (Some ''2024-01-02T12:00:00Z'') ''Non'' ''Oui'' None])
       = Fin (3 / 2)"
  using avgRemediationTime_value
    [of sampleDate
       "[vuln ''Resolved'' (Some ''2024-01-01'') (Some ''2024-01-03'') ''Non'' ''Oui'' None,
         vuln ''Open'' (Some ''2024-01-01'') (Some ''2024-01-05'') ''Non'' ''Oui'' None,
         vuln ''Resolved'' (Some ''2024-01-01'') None ''Non'' ''Oui'' None,
         vuln ''Resolved'' (Some []) (Some ''2024-01-05'') ''Non'' ''Oui'' None,
         vuln ''Resolved'' None (Some ''2024-01-05'') ''Non'' ''Oui'' None,
         vuln ''Resolved'' (Some ''2024-01-01'') (Some ''2024-01-05'') ''Non'' ''Oui'' None]"]
    avgRemediationTime_value
    [of sampleDate
       "[vuln ''Resolved'' (Some ''2024-01-01'') (Some ''2024-01-02T12:00:00Z'') ''Non'' ''Oui'' None]"]
  by (simp add: vuln_def elapsedDays_def sampleDate_def)

lemma patchesInTime_fold:
  "foldl (\<lambda>n v. if P v then n + 1 else n) (k::nat) vs = k + length (filter P vs)"
  by (induction vs arbitrary: k) simp_all

lemma patchesInTimeRate_unfold:
  "patchesInTimeRate (calculateVulnKpis parseDate data) =
     (if length (resolvedVulns data) > 0
      then js_mul (js_div
             (Fin (real (foldl (\<lambda>n v. if js_le (daysDiff parseDate v) (recommendedDays v) then n + 1 else n)
                               (0::nat) (resolvedVulns data))))
             (Fin (real (length (resolvedVulns data))))) (Fin 100)
      else Fin 0)"
  by (simp only: calculateVulnKpis_def Let_def VulnKpis.select_convs)

lemma patchesInTimeRate_resolvedVulns:
  "patchesInTimeRate (calculateVulnKpis parseDate data) =
     (if resolvedVulns data = [] then Fin 0
      else Fin (100 * real (length (filter (\<lambda>v. js_le (daysDiff parseDate v) (recommendedDays v))
                                            (resolvedVulns data)))
                 / real (length (resolvedVulns data))))"
  by (simp add: patchesInTimeRate_unfold patchesInTime_fold)

text \<open>The test of line 292 on a record whose dates the host reads and whose timeframe is
  absent or a number.\<close>

lemma inTime_onTime:
  assumes "elapsedDays parseDate v \<noteq> None"
    and "RecommendedTimeframe v = None \<or> (\<exists>t. RecommendedTimeframe v = Some (NumCell (Fin t)))"
  shows "js_le (daysDiff parseDate v) (recommendedDays v) = onTime parseDate v"
proof -
  obtain x where x: "elapsedDays parseDate v = Some x"
    using assms(1) by auto
  then have d: "daysDiff parseDate v = Fin x"
    by (simp add: daysDiff_elapsedDays)
  show ?thesis
    using assms(2) x
    by (auto simp: d recommendedDays_def onTime_def truthy_cell_def cellNumber_def truthy_num_def
          split: if_splits)
qed

text \<open>
  C2, with a timeframe of 0 unbounded. For a record list in which every record that is
  Resolved with both dates present has dates the host reads and a timeframe that is
  absent or a number, \<^verbatim>\<open>patchesInTimeRate\<close> is computed over exactly the records
  whose status is Resolved and whose two dates are present: 100 times the number of
  those whose timeframe is absent or 0 or at least the elapsed days, over their number,
  and 0 when there is none.
\<close>

theorem patchesInTimeRate_value:
  assumes "\<forall>v\<in>set data.
             vStatus v = ''Resolved''
             \<and> PatchAppliedDate v \<noteq> None \<and> PatchAppliedDate v \<noteq> Some []
             \<and> DetectionDate v \<noteq> None \<and> DetectionDate v \<noteq> Some []
             \<longrightarrow> elapsedDays parseDate v \<noteq> None
                 \<and> (RecommendedTimeframe v = None
                    \<or> (\<exists>t. RecommendedTimeframe v = Some (NumCell (Fin t))))"
  shows "patchesInTimeRate (calculateVulnKpis parseDate data) =
     (let subset = filter (\<lambda>v. vStatus v = ''Resolved''
                        \<and> PatchAppliedDate v \<noteq> None \<and> PatchAppliedDate v \<noteq> Some []
                        \<and> DetectionDate v \<noteq> None \<and> DetectionDate v \<noteq> Some []) data
      in if subset = [] then Fin 0
         else Fin (100 * real (length (filter (onTime parseDate) subset)) / real (length subset)))"
proof -
  have "\<forall>v\<in>set (resolvedVulns data).
          js_le (daysDiff parseDate v) (recommendedDays v) = onTime parseDate v"
    using assms by (auto simp: resolvedVulns_fields intro!: inTime_onTime)
  then have "filter (\<lambda>v. js_le (daysDiff parseDate v) (recommendedDays v)) (resolvedVulns data) =
               filter (onTime parseDate) (resolvedVulns data)"
    by (intro filter_cong) auto
  then have "patchesInTimeRate (calculateVulnKpis parseDate data) =
     (if resolvedVulns data = [] then Fin 0
      else Fin (100 * real (length (filter (onTime parseDate) (resolvedVulns data)))
                 / real (length (resolvedVulns data))))"
    by (simp only: patchesInTimeRate_resolvedVulns)
  then show ?thesis
    unfolding Let_def resolvedVulns_fields [symmetric] .
qed

text \<open>Seven records, four of them Resolved with both dates: timeframe absent (on time),
  3 days for 4 elapsed (late), 0 days for 4 elapsed (on time), 2 days for 2 elapsed (on
  time). The other three are left out, whatever their timeframe.\<close>

theorem patchesInTimeRate_witness:
  "patchesInTimeRate (calculateVulnKpis sampleDate
      [vuln ''Resolved'' (Some ''2024-01-01'') (Some ''2024-01-03'') ''Non'' ''Oui'' None,
       vuln ''Open'' (Some ''2024-01-01'') (Some ''2024-01-05'') ''Non'' ''Oui'' (Some (NumCell (Fin 1))),
       vuln ''Resolved'' (Some ''2024-01-01'') (Some ''2024-01-05'') ''Non'' ''Oui'' (Some (NumCell (Fin 3))),
       vuln ''Resolved'' (Some ''2024-01-01'') None ''Non'' ''Oui'' (Some (NumCell (Fin 1))),
       vuln ''Resolved'' (Some ''2024-01-01'') (Some ''2024-01-05'') ''Non'' ''Oui'' (Some (NumCell (Fin 0))),
       vuln ''Resolved'' (Some []) (Some ''2024-01-05'') ''Non'' ''Oui'' (Some (StrCell ''soon'' NaN)),
       vuln ''Resolved'' (Some ''2024-01-01'') (Some ''2024-01-03'') ''Non'' ''Oui'' (Some (NumCell (Fin 2)))])
     = Fin 75"
proof -
  let ?data =
     "[vuln ''Resolved'' (Some ''2024-01-01'') (Some ''2024-01-03'') ''Non'' ''Oui'' None,
       vuln ''Open'' (Some ''2024-01-01'') (Some ''2024-01-05'') ''Non'' ''Oui'' (Some (NumCell (Fin 1))),
       vuln ''Resolved'' (Some ''2024-01-01'') (Some ''2024-01-05'') ''Non'' ''Oui'' (Some (NumCell (Fin 3))),
       vuln ''Resolved'' (Some ''2024-01-01'') None ''Non'' ''Oui'' (Some (NumCell (Fin 1))),
       vuln ''Resolved'' (Some ''2024-01-01'') (Some ''2024-01-05'') ''Non'' ''Oui'' (Some (NumCell (Fin 0))),
       vuln ''Resolved'' (Some []) (Some ''2024-01-05'') ''Non'' ''Oui'' (Some (StrCell ''soon'' NaN)),
       vuln ''Resolved'' (Some ''2024-01-01'') (Some ''2024-01-03'') ''Non'' ''Oui'' (Some (NumCell (Fin 2)))]"
  have h: "\<forall>v\<in>set ?data.
             vStatus v = ''Resolved''
             \<and> PatchAppliedDate v \<noteq> None \<and> PatchAppliedDate v \<noteq> Some []
             \<and> DetectionDate v \<noteq> None \<and> DetectionDate v \<noteq> Some []
             \<longrightarrow> elapsedDays sampleDate v \<noteq> None
                 \<and> (RecommendedTimeframe v = None
                    \<or> (\<exists>t. RecommendedTimeframe v = Some (NumCell (Fin t))))"
    by (simp add: vuln_def elapsedDays_def sampleDate_def)
  show ?thesis
    using patchesInTimeRate_value [OF h]
    by (simp add: vuln_def onTime_def elapsedDays_def sampleDate_def)
qed

text \<open>The claim C2 as the specification words it fails on a timeframe of 0: a record
  patched two days after detection with a timeframe of 0 days is not on time in the
  specification's reading, and the code counts it on time.\<close>

theorem patchesInTimeRate_zero_timeframe_counterexample:
  "patchesInTimeRate (calculateVulnKpis sampleDate
      [vuln ''Resolved'' (Some ''2024-01-01'') (Some ''2024-01-03'') ''Non'' ''Oui'' (Some (NumCell (Fin 0)))])
     = Fin 100
   \<and> spec_onTimePatchRate sampleDate
      [vuln ''Resolved'' (Some ''2024-01-01'') (Some ''2024-01-03'') ''Non'' ''Oui'' (Some (NumCell (Fin 0)))]
     = Fin 0
   \<and> patchesInTimeRate (calculateVulnKpis sampleDate
      [vuln ''Resolved'' (Some ''2024-01-01'') (Some ''2024-01-03'') ''Non'' ''Oui'' (Some (NumCell (Fin 0)))])
     \<noteq> spec_onTimePatchRate sampleDate
      [vuln ''Resolved'' (Some ''2024-01-01'') (Some ''2024-01-03'') ''Non'' ''Oui'' (Some (NumCell (Fin 0)))]"
proof -
  let ?v = "vuln ''Resolved'' (Some ''2024-01-01'') (Some ''2024-01-03'') ''Non'' ''Oui'' (Some (NumCell (Fin 0)))"
  have r: "resolvedVulns [?v] = [?v]"
    by (simp add: resolvedVulns_def vuln_def truthy_str_def)
  have e: "elapsedDays sampleDate ?v = Some 2"
    by (simp add: elapsedDays_def sampleDate_def vuln_def)
  have d: "daysDiff sampleDate ?v = Fin 2"
    by (simp add: daysDiff_elapsedDays e)
  have tf: "RecommendedTimeframe ?v = Some (NumCell (Fin 0))"
    by (simp add: vuln_def)
  have rd: "recommendedDays ?v = PosInf"
    by (simp add: recommendedDays_def tf truthy_cell_def truthy_num_def)
  have code: "patchesInTimeRate (calculateVulnKpis sampleDate [?v]) = Fin 100"
    by (simp add: patchesInTimeRate_unfold r d rd)
  have "\<not> spec_onTime sampleDate ?v"
    by (simp add: spec_onTime_def tf e cellNumber_def)
  moreover have "filter (\<lambda>v. vStatus v = ''Resolved''
                        \<and> PatchAppliedDate v \<noteq> None \<and> PatchAppliedDate v \<noteq> Some []
                        \<and> DetectionDate v \<noteq> None \<and> DetectionDate v \<noteq> Some []) [?v] = [?v]"
    by (simp add: vuln_def)
  ultimately have spec: "spec_onTimePatchRate sampleDate [?v] = Fin 0"
    by (simp add: spec_onTimePatchRate_def)
  show ?thesis unfolding code spec by simp
qed

text \<open>The test of line 292 on the other timeframes: a text that is not numeric is a
  truthy string that compares as NaN, so the record is never in time; a number that is
  NaN is falsy, so the timeframe is unbounded.\<close>

lemma text_timeframe_never_inTime:
  assumes "RecommendedTimeframe v = Some (StrCell s NaN)" and "s \<noteq> []"
  shows "\<not> js_le (daysDiff parseDate v) (recommendedDays v)"
proof -
  have "recommendedDays v = NaN"
    using assms by (simp add: recommendedDays_def truthy_cell_def cellNumber_def)
  then show ?thesis by (cases "daysDiff parseDate v") simp_all
qed

lemma NaN_timeframe_unbounded:
  assumes "RecommendedTimeframe v = Some (NumCell NaN)"
  shows "recommendedDays v = PosInf"
  using assms by (simp add: recommendedDays_def truthy_cell_def truthy_num_def)

lemma absent_timeframe_onTime:
  assumes "RecommendedTimeframe v = None"
  shows "onTime parseDate v" and "spec_onTime parseDate v"
  using assms by (simp_all add: onTime_def spec_onTime_def)

section \<open>A failed load\<close>

text \<open>No step throws exactly when each of the six steps returns. Neither the
  \<^verbatim>\<open>ok\<close> flag of a response nor the errors of a parse result take part.\<close>

lemma loadSources_Inr_iff:
  "loadSources host = Inr (edr, vulns) \<longleftrightarrow>
     (\<exists>r1 t1 p1 r2 t2 p2.
        fetch host ''/public/edr_data.csv'' = Inr r1 \<and> responseText r1 = Inr t1
        \<and> papaParseEdr host t1 = Inr p1 \<and> resultData p1 = edr
        \<and> fetch host ''/public/vulnerabilities_data.csv'' = Inr r2 \<and> responseText r2 = Inr t2
        \<and> papaParseVuln host t2 = Inr p2 \<and> resultData p2 = vulns)"
  by (auto simp: loadSources_def split: sum.splits)

lemma loadSources_fetch_fails:
  "fetch host ''/public/edr_data.csv'' = Inl e \<Longrightarrow> loadSources host = Inl e"
  by (simp add: loadSources_def)

lemma loadData_success:
  assumes "loadSources host = Inr (edr, vulns)"
  shows "loadData host st =
           st \<lparr> edrData := edr, vulnData := vulns, edrKpis := calculateEdrKpis edr,
                vulnKpis := calculateVulnKpis (newDate host) vulns, loading := False \<rparr>"
  using assms by (simp add: loadData_def)

text \<open>
  C9, for a failure that throws. When a step of the load throws (\<^verbatim>\<open>fetch\<close> rejects, or
  reading the body or the parser throws), \<^verbatim>\<open>loadData\<close> catches the error, logs it with
  \<^verbatim>\<open>console.error\<close> and sets \<^verbatim>\<open>loading\<close> to false; the rest of the state is as it
  was initialised, so both summaries are the all-zero defaults, and what the component
  renders is the page over these defaults, with nothing of the error in it.
\<close>

theorem loadData_failure:
  assumes "loadSources host = Inl e"
  shows "loadData host initialState =
           initialState \<lparr> console := [(loadErrorMessage, e)], loading := False \<rparr>
       \<and> console (loadData host initialState) = [(loadErrorMessage, e)]
       \<and> loading (loadData host initialState) = False
       \<and> edrKpis (loadData host initialState) = initialEdrKpis
       \<and> vulnKpis (loadData host initialState) = initialVulnKpis
       \<and> render (loadData host initialState) = Page initialEdrKpis initialVulnKpis"
proof -
  have st: "loadData host initialState =
              initialState \<lparr> console := [(loadErrorMessage, e)], loading := False \<rparr>"
    using assms by (simp add: loadData_def initialState_def)
  show ?thesis
    unfolding st by (simp add: initialState_def render_def)
qed

theorem loadData_failure_witness:
  "loadSources failingHost = Inl ''TypeError: Failed to fetch''
   \<and> loadSources halfFailingHost = Inl ''TypeError: Failed to fetch''
   \<and> loading (loadData failingHost initialState) = False
   \<and> console (loadData failingHost initialState) = [(loadErrorMessage, ''TypeError: Failed to fetch'')]
   \<and> render (loadData failingHost initialState) = Page initialEdrKpis initialVulnKpis
   \<and> loading (loadData halfFailingHost initialState) = False
   \<and> edrKpis (loadData halfFailingHost initialState) = initialEdrKpis
   \<and> render (loadData halfFailingHost initialState) = Page initialEdrKpis initialVulnKpis"
proof -
  have 1: "loadSources failingHost = Inl ''TypeError: Failed to fetch''"
    by (simp add: loadSources_def failingHost_def)
  have 2: "loadSources halfFailingHost = Inl ''TypeError: Failed to fetch''"
    by (simp add: loadSources_def halfFailingHost_def)
  from 1 2 loadData_failure [OF 1] loadData_failure [OF 2] show ?thesis
    by blast
qed

text \<open>The claim C9 for every network or parse failure fails on a failure that throws
  nothing. A malformed alert file, for which the parser returns a row and an error: no
  error is logged and the alert summary is computed from the row. A status 404 on both
  requests, whose bodies hold no row: no error is logged and the summaries are computed
  from the empty lists, so the critical rate is NaN.\<close>

theorem loadData_unthrown_failure_counterexample:
  "spec_loadFailure malformedCsvHost
   \<and> console (loadData malformedCsvHost initialState) = []
   \<and> totalAlerts (edrKpis (loadData malformedCsvHost initialState)) = 1
   \<and> edrKpis (loadData malformedCsvHost initialState) \<noteq> initialEdrKpis
   \<and> spec_loadFailure notFoundHost
   \<and> console (loadData notFoundHost initialState) = []
   \<and> criticalRate (edrKpis (loadData notFoundHost initialState)) = NaN
   \<and> edrKpis (loadData notFoundHost initialState) \<noteq> initialEdrKpis"
proof -
  have f1: "spec_loadFailure malformedCsvHost"
    by (simp add: spec_loadFailure_def spec_sourceFailure_def malformedCsvHost_def)
  have s1: "loadSources malformedCsvHost = Inr ([alert ''Critical'' ''Process''], [])"
    by (simp add: loadSources_def malformedCsvHost_def noRows_def)
  have c1: "console (loadData malformedCsvHost initialState) = []"
    by (simp add: loadData_success [OF s1] initialState_def)
  have k1: "edrKpis (loadData malformedCsvHost initialState) = calculateEdrKpis [alert ''Critical'' ''Process'']"
    by (simp add: loadData_success [OF s1])
  have t1: "totalAlerts (calculateEdrKpis [alert ''Critical'' ''Process'']) = 1"
    by (simp add: calculateEdrKpis_def Let_def)
  have n1: "calculateEdrKpis [alert ''Critical'' ''Process''] \<noteq> initialEdrKpis"
  proof
    assume "calculateEdrKpis [alert ''Critical'' ''Process''] = initialEdrKpis"
    then have "totalAlerts (calculateEdrKpis [alert ''Critical'' ''Process'']) = totalAlerts initialEdrKpis"
      by simp
    then show False by (simp add: t1 initialEdrKpis_def)
  qed
  have f2: "spec_loadFailure notFoundHost"
    by (simp add: spec_loadFailure_def spec_sourceFailure_def notFoundHost_def)
  have s2: "loadSources notFoundHost = Inr ([], [])"
    by (simp add: loadSources_def notFoundHost_def noRows_def)
  have c2: "console (loadData notFoundHost initialState) = []"
    by (simp add: loadData_success [OF s2] initialState_def)
  have k2: "edrKpis (loadData notFoundHost initialState) = calculateEdrKpis []"
    by (simp add: loadData_success [OF s2])
  have r2: "criticalRate (calculateEdrKpis []) = NaN"
    by (simp add: calculateEdrKpis_empty)
  have n2: "calculateEdrKpis [] \<noteq> initialEdrKpis"
  proof
    assume "calculateEdrKpis [] = initialEdrKpis"
    then have "criticalRate (calculateEdrKpis []) = criticalRate initialEdrKpis"
      by simp
    then show False by (simp add: r2 initialEdrKpis_def)
  qed
  show ?thesis
    unfolding k1 k2 using f1 c1 t1 n1 f2 c2 r2 n2 by blast
qed

text \<open>The defaults are all zero.\<close>

lemma initial_summaries_zero:
  "totalAlerts initialEdrKpis = 0 \<and> criticalRate initialEdrKpis = Fin 0
   \<and> iocDetectionRate initialEdrKpis = Fin 0 \<and> suspiciousConnectionRate initialEdrKpis = Fin 0
   \<and> uniqueEndpoints initialEdrKpis = 0
   \<and> totalVulnerabilities initialVulnKpis = 0 \<and> remediationRate initialVulnKpis = Fin 0
   \<and> avgRemediationTime initialVulnKpis = Fin 0 \<and> criticalVulnerabilityRate initialVulnKpis = Fin 0
   \<and> patchesInTimeRate initialVulnKpis = Fin 0"
  by (simp add: initialEdrKpis_def initialVulnKpis_def)

end
